theory Spec2Isabelle
  imports Main "HOL-Library.Word"
begin

unbundle bit_operations_syntax

section \<open>The error code consumed by \<^verbatim>\<open>libimp/result.h\<close>\<close>

text \<open>
  Modelled from the spec: the header \<^verbatim>\<open>libimp/error.h\<close>, which declares the integer
  type \<^verbatim>\<open>error_code_t\<close>, the class \<^verbatim>\<open>error_code\<close> and the constant
  \<^verbatim>\<open>error_number_limit\<close>, is not among the sources. The spec describes the error code
  as an opaque, equality-comparable value with one distinguished "no error" value that is
  falsy, every other value being truthy. \<^verbatim>\<open>result.h\<close> builds error codes from values
  of \<^verbatim>\<open>error_code_t\<close> (the literal \<^verbatim>\<open>0\<close> for success, \<^verbatim>\<open>-1\<close>,
  \<^verbatim>\<open>error_number_limit\<close>) and from \<^verbatim>\<open>{}\<close>.

  \<^verbatim>\<open>error_code_t\<close> is a machine integer of some width, \<open>'e word\<close>, and
  \<^verbatim>\<open>error_code\<close> wraps one such number; two error codes are equal when the numbers are.
  \<^verbatim>\<open>error_number_limit\<close>, the "uninitialized" value of which the spec says only that it
  is distinct from "no error", is a parameter of every function that reads it.
\<close>

type_synonym 'e error_code_t = "'e word"

datatype 'c error_code = error_code (code: 'c)

text \<open>
  Modelled from the spec: the "no error" value, which \<^verbatim>\<open>result.h\<close> writes both as the
  value-initialised \<^verbatim>\<open>error_code{}\<close> and as the number \<^verbatim>\<open>0\<close>.
\<close>

definition no_error :: "'e::len error_code_t error_code" where
  "no_error = error_code 0"

text \<open>
  Modelled from the spec: \<^verbatim>\<open>error_code::operator bool\<close>, false on the "no error" value and
  true on every other value.
\<close>

definition to_bool :: "'e::len error_code_t error_code \<Rightarrow> bool" where
  "to_bool ec = (code ec \<noteq> 0)"

section \<open>Payload types\<close>

text \<open>
  An integral payload type \<^verbatim>\<open>T\<close> is a word of some width together with its signedness
  (\<^verbatim>\<open>std::is_signed<T>\<close>); the signedness decides how a value of \<^verbatim>\<open>T\<close> converts to
  \<^verbatim>\<open>error_code_t\<close>: by sign extension or by zero extension, truncated to the width of
  \<^verbatim>\<open>error_code_t\<close>. In
  \<^verbatim>\<open>static_cast<error_code_t>(ok ? 0 : ((value == default_value()) ? error_number_limit : value))\<close>
  the conditional operators first bring both branches to their common arithmetic type, a type at
  least as wide as \<^verbatim>\<open>error_code_t\<close>, so the cast returns \<^verbatim>\<open>error_number_limit\<close> unchanged and
  \<^verbatim>\<open>value\<close> converted as described.
\<close>

definition static_cast_error_code_t :: "bool \<Rightarrow> 'a::len word \<Rightarrow> 'e::len error_code_t" where
  "static_cast_error_code_t is_signed v = (if is_signed then scast v else ucast v)"

text \<open>A pointer payload is an address; the null pointer is address 0.\<close>

type_synonym pointer = nat

definition nullptr :: pointer where
  "nullptr = 0"

section \<open>\<^verbatim>\<open>detail_result::generic_traits<T>\<close>\<close>

text \<open>
  \<^verbatim>\<open>storage_t = std::tuple<T, error_code>\<close>. Each \<^verbatim>\<open>init_code\<close> overload assigns its
  out-parameter \<^verbatim>\<open>code\<close>; the model returns the assigned tuple. The overload is chosen from
  the argument types when the program is built, so each overload is a function of its own.
  \<^verbatim>\<open>T{}\<close> and \<^verbatim>\<open>T(0)\<close> are the zero of the payload type.
\<close>

type_synonym ('a, 'e) storage_t = "'a \<times> 'e error_code_t error_code"

definition init_code :: "'e::len error_code_t \<Rightarrow> ('a::zero, 'e) storage_t" where
  "init_code error_number_limit = (0, error_code error_number_limit)"

definition init_code_value_ec ::
  "'a \<Rightarrow> 'e::len error_code_t error_code \<Rightarrow> ('a, 'e) storage_t" where
  "init_code_value_ec v ec = (v, ec)"

definition init_code_value :: "'a \<Rightarrow> ('a, 'e::len) storage_t" where
  "init_code_value v = (v, no_error)"

definition init_code_ec :: "'e::len error_code_t error_code \<Rightarrow> ('a::zero, 'e) storage_t" where
  "init_code_ec ec = (0, ec)"

definition get_value :: "('a, 'e::len) storage_t \<Rightarrow> 'a" where
  "get_value c = fst c"

definition get_ok :: "('a, 'e::len) storage_t \<Rightarrow> bool" where
  "get_ok c = (\<not> to_bool (snd c))"

definition get_error :: "('a, 'e::len) storage_t \<Rightarrow> 'e error_code_t error_code" where
  "get_error c = snd c"

section \<open>\<^verbatim>\<open>detail_result::default_traits<void>\<close>\<close>

text \<open>\<^verbatim>\<open>storage_t = error_code\<close>.\<close>

definition void_init_code :: "'e::len error_code_t \<Rightarrow> 'e error_code_t error_code" where
  "void_init_code error_number_limit = error_code error_number_limit"

definition void_init_code_ec ::
  "'e::len error_code_t error_code \<Rightarrow> 'e error_code_t error_code" where
  "void_init_code_ec ec = ec"

definition void_get_ok :: "'e::len error_code_t error_code \<Rightarrow> bool" where
  "void_get_ok c = (\<not> to_bool c)"

definition void_get_error :: "'e::len error_code_t error_code \<Rightarrow> 'e error_code_t error_code" where
  "void_get_error c = c"

section \<open>\<^verbatim>\<open>detail_result::default_traits<T>\<close> for integral \<^verbatim>\<open>T\<close>\<close>

definition integral_default_value :: "'a::len word" where
  "integral_default_value = 0"

definition integral_init_code_value_ok ::
  "bool \<Rightarrow> 'e::len error_code_t \<Rightarrow> 'a::len word \<Rightarrow> bool \<Rightarrow> ('a word, 'e) storage_t" where
  "integral_init_code_value_ok is_signed error_number_limit v ok =
     (v, error_code (if ok then 0
                     else if v = integral_default_value then error_number_limit
                     else static_cast_error_code_t is_signed v))"

section \<open>\<^verbatim>\<open>detail_result::default_traits<T>\<close> for pointer \<^verbatim>\<open>T\<close>\<close>

definition pointer_default_value :: pointer where
  "pointer_default_value = nullptr"

definition pointer_init_code_null_ec ::
  "'e::len error_code_t error_code \<Rightarrow> (pointer, 'e) storage_t" where
  "pointer_init_code_null_ec ec = (nullptr, ec)"

definition pointer_init_code_null :: "(pointer, 'e::len) storage_t" where
  "pointer_init_code_null = (nullptr, error_code (- 1))"

section \<open>\<^verbatim>\<open>class result<T, TypeTraits>\<close>\<close>

text \<open>
  The wrapper owns one \<^verbatim>\<open>storage_t code_\<close> (here \<open>code_member\<close>). Its only
  constructor forwards its arguments to the matching \<^verbatim>\<open>init_code\<close> overload, so
  \<open>result (init_code_value_ec v ec)\<close> is the object built by \<^verbatim>\<open>result<T>(v, ec)\<close>, and
  likewise for the other shapes.
\<close>

datatype 's result = result (code_member: 's)

definition "value" :: "('a, 'e::len) storage_t result \<Rightarrow> 'a" where
  "value r = get_value (code_member r)"

definition ok :: "('a, 'e::len) storage_t result \<Rightarrow> bool" where
  "ok r = get_ok (code_member r)"

definition error :: "('a, 'e::len) storage_t result \<Rightarrow> 'e error_code_t error_code" where
  "error r = get_error (code_member r)"

definition operator_deref :: "('a, 'e::len) storage_t result \<Rightarrow> 'a" where
  "operator_deref r = value r"

definition operator_bool :: "('a, 'e::len) storage_t result \<Rightarrow> bool" where
  "operator_bool r = ok r"

definition operator_eq :: "'s result \<Rightarrow> 's result \<Rightarrow> bool" where
  "operator_eq lhs rhs = (code_member lhs = code_member rhs)"

definition operator_ne :: "'s result \<Rightarrow> 's result \<Rightarrow> bool" where
  "operator_ne lhs rhs = (\<not> operator_eq lhs rhs)"

section \<open>\<^verbatim>\<open>class result<void, TypeTraits>\<close>\<close>

datatype 's result_void = result_void (void_code_member: 's)

definition void_ok :: "'e::len error_code_t error_code result_void \<Rightarrow> bool" where
  "void_ok r = void_get_ok (void_code_member r)"

definition void_error ::
  "'e::len error_code_t error_code result_void \<Rightarrow> 'e error_code_t error_code" where
  "void_error r = void_get_error (void_code_member r)"

definition void_operator_bool :: "'e::len error_code_t error_code result_void \<Rightarrow> bool" where
  "void_operator_bool r = void_ok r"

definition void_operator_eq :: "'s result_void \<Rightarrow> 's result_void \<Rightarrow> bool" where
  "void_operator_eq lhs rhs = (void_code_member lhs = void_code_member rhs)"

definition void_operator_ne :: "'s result_void \<Rightarrow> 's result_void \<Rightarrow> bool" where
  "void_operator_ne lhs rhs = (\<not> void_operator_eq lhs rhs)"

section \<open>\<^verbatim>\<open>libpmr/memory_resource.cpp\<close>\<close>

subsection \<open>The collaborators of the allocator\<close>

text \<open>
  Modelled from the spec: the logging facility (\<^verbatim>\<open>libimp/log.h\<close>, the macro
  \<^verbatim>\<open>LIBIMP_LOG_\<close> and the class \<^verbatim>\<open>log::gripper\<close>) is not among the sources. The spec
  calls it a side channel that receives diagnostics. The gripper \<^verbatim>\<open>log\<close> is the list of the
  records written so far; \<^verbatim>\<open>log.error(fmt, args...)\<close> appends one record that keeps the
  format string and the arguments as they were passed.
\<close>

datatype 'n fmt_arg = arg_size 'n | arg_pointer pointer | arg_string string

datatype 'n log_record = log_error string "'n fmt_arg list"

type_synonym 's gripper = "'s word log_record list"

text \<open>
  The C library and the build configuration are outside the program. A call of a library
  routine returns a value or, under \<^verbatim>\<open>LIBIMP_TRY\<close>, may raise an exception, which the code
  catches either as \<^verbatim>\<open>std::exception\<close> (with its \<^verbatim>\<open>what()\<close>) or by \<^verbatim>\<open>catch (...)\<close>.
  The record \<open>platform\<close> gives the build configuration selected by the preprocessor,
  \<^verbatim>\<open>alignof(std::max_align_t)\<close>, and the answer of each library routine at the moment of the
  call. \<^verbatim>\<open>std::size_t\<close> is \<open>'s word\<close>.
\<close>

datatype build = LIBIMP_CPP_17 | LIBIMP_OS_WIN | POSIX

datatype 'r outcome = returns 'r | throws_std_exception string | throws_unknown

record 'n platform =
  build :: build
  alignof_max_align_t :: 'n
  malloc :: "'n \<Rightarrow> pointer"
  aligned_alloc :: "'n \<Rightarrow> 'n \<Rightarrow> pointer outcome"
  aligned_malloc :: "'n \<Rightarrow> 'n \<Rightarrow> pointer"
  posix_memalign :: "'n \<Rightarrow> 'n \<Rightarrow> int \<times> pointer"
  sys_error :: "int \<Rightarrow> string"
  free :: "pointer \<Rightarrow> unit outcome"

text \<open>The release routines that \<^verbatim>\<open>deallocate\<close> may call, in the order it called them.\<close>

datatype release = call_std_free pointer | call_aligned_free pointer | call_free pointer

subsection \<open>\<^verbatim>\<open>verify_args\<close>\<close>

definition verify_args :: "'s::len gripper \<Rightarrow> 's word \<Rightarrow> 's word \<Rightarrow> bool \<times> 's gripper" where
  "verify_args log bytes alignment =
     (if bytes = 0 then (False, log)
      else if alignment = 0 \<or> alignment AND (alignment - 1) \<noteq> 0 then
        (False, log @ [log_error ''invalid bytes = {}, alignment = {}''
                         [arg_size bytes, arg_size alignment]])
      else (True, log))"

subsection \<open>\<^verbatim>\<open>new_delete_resource::allocate\<close>\<close>

definition allocate ::
  "'s::len word platform \<Rightarrow> 's gripper \<Rightarrow> 's word \<Rightarrow> 's word \<Rightarrow> pointer \<times> 's gripper" where
  "allocate pf log0 bytes alignment =
     (case verify_args log0 bytes alignment of (valid, log) \<Rightarrow>
        if \<not> valid then (nullptr, log)
        else if alignment \<le> alignof_max_align_t pf then (malloc pf bytes, log)
        else (case build pf of
            LIBIMP_CPP_17 \<Rightarrow>
              (case aligned_alloc pf alignment bytes of
                 returns p \<Rightarrow> (p, log)
               | throws_std_exception what \<Rightarrow>
                   (nullptr, log @ [log_error
                      ''std::aligned_alloc(alignment = {}, bytes = {}) fails. error = {}''
                      [arg_size alignment, arg_size bytes, arg_string what]])
               | throws_unknown \<Rightarrow>
                   (nullptr, log @ [log_error
                      ''std::aligned_alloc(alignment = {}, bytes = {}) fails. error = unknown exception''
                      [arg_size alignment, arg_size bytes]]))
          | LIBIMP_OS_WIN \<Rightarrow> (aligned_malloc pf bytes alignment, log)
          | POSIX \<Rightarrow>
              (case posix_memalign pf alignment bytes of (ret, p) \<Rightarrow>
                 if ret \<noteq> 0 then
                   (nullptr, log @ [log_error
                      ''posix_memalign(alignment = {}, bytes = {}) fails. error = {}''
                      [arg_size alignment, arg_size bytes, arg_string (sys_error pf ret)]])
                 else (p, log))))"

subsection \<open>\<^verbatim>\<open>new_delete_resource::deallocate\<close>\<close>

text \<open>
  The lambda \<^verbatim>\<open>std_free\<close> captures \<^verbatim>\<open>log\<close>, \<^verbatim>\<open>bytes\<close> and \<^verbatim>\<open>alignment\<close>. The model of
  \<^verbatim>\<open>deallocate\<close> returns the log and the release routines it called.
\<close>

definition std_free ::
  "'s::len word platform \<Rightarrow> 's gripper \<Rightarrow> 's word \<Rightarrow> 's word \<Rightarrow> pointer \<Rightarrow> 's gripper" where
  "std_free pf log bytes alignment p =
     (case free pf p of
        returns u \<Rightarrow> log
      | throws_std_exception what \<Rightarrow>
          log @ [log_error ''std::free(p = {}) fails, alignment = {}, bytes = {}. error = {}''
                   [arg_pointer p, arg_size alignment, arg_size bytes, arg_string what]]
      | throws_unknown \<Rightarrow>
          log @ [log_error
                   ''std::free(p = {}) fails, alignment = {}, bytes = {}. error = unknown exception''
                   [arg_pointer p, arg_size alignment, arg_size bytes]])"

definition deallocate ::
  "'s::len word platform \<Rightarrow> 's gripper \<Rightarrow> pointer \<Rightarrow> 's word \<Rightarrow> 's word
     \<Rightarrow> 's gripper \<times> release list" where
  "deallocate pf log0 p bytes alignment =
     (if p = nullptr then (log0, [])
      else (case verify_args log0 bytes alignment of (valid, log) \<Rightarrow>
        if \<not> valid then (log, [])
        else (case build pf of
            LIBIMP_CPP_17 \<Rightarrow> (std_free pf log bytes alignment p, [call_std_free p])
          | LIBIMP_OS_WIN \<Rightarrow>
              if alignment \<le> alignof_max_align_t pf
              then (std_free pf log bytes alignment p, [call_std_free p])
              else (log, [call_aligned_free p])
          | POSIX \<Rightarrow>
              if alignment \<le> alignof_max_align_t pf
              then (std_free pf log bytes alignment p, [call_std_free p])
              else (log, [call_free p]))))"

text \<open>
  The contract's wording, "alignment is a power of two", for a \<^verbatim>\<open>std::size_t\<close>: one of
  \<open>2 ^ 0\<close>, ..., \<open>2 ^ (w - 1)\<close> for the width \<open>w\<close>.
\<close>

definition is_power_of_two :: "'s::len word \<Rightarrow> bool" where
  "is_power_of_two a = (\<exists>k\<in>{0..<LENGTH('s)}. a = 2 ^ k)"

text \<open>
  A platform for the instances below: a POSIX build with 64-bit \<^verbatim>\<open>std::size_t\<close>,
  \<^verbatim>\<open>alignof(std::max_align_t) = 16\<close>, and library routines that succeed and hand out the
  address 4096.
\<close>

definition posix64 :: "64 word platform" where
  "posix64 = \<lparr>build = POSIX, alignof_max_align_t = 16, malloc = (\<lambda>bytes. 4096),
     aligned_alloc = (\<lambda>alignment bytes. returns 4096),
     aligned_malloc = (\<lambda>bytes alignment. 4096),
     posix_memalign = (\<lambda>alignment bytes. (0, 4096)),
     sys_error = (\<lambda>ret. ''error''), free = (\<lambda>p. returns ())\<rparr>"

section \<open>Auxiliary facts\<close>

text \<open>An error code is falsy exactly when it is the "no error" value.\<close>

lemma not_to_bool_iff: "(\<not> to_bool ec) = (ec = no_error)"
  by (cases ec) (simp add: to_bool_def no_error_def)





text \<open>
  The bit test of \<open>verify_args\<close> on natural numbers: \<open>n AND (n - 1)\<close> clears the lowest
  set bit of \<open>n\<close>.
\<close>

lemma and_pred_even: "0 < m \<Longrightarrow> (2 * m) AND (2 * m - 1) = 2 * (m AND (m - 1 :: nat))"
proof -
  assume m: "0 < m"
  have e: "2 * m - 1 = 2 * (m - 1) + 1" using m by simp
  show ?thesis unfolding e
    by (subst and_rec) simp
qed

lemma and_pred_odd: "(2 * m + 1) AND (2 * m + 1 - 1) = 2 * (m :: nat)"
  by (subst and_rec) simp

lemma nat_and_pred_eq_0_iff: "0 < n \<Longrightarrow> (n AND (n - 1) = 0) = (\<exists>k. n = (2::nat) ^ k)"
proof (induction n rule: less_induct)
  case (less n)
  show ?case
  proof (cases "even n")
    case True
    then obtain m where m: "n = 2 * m" by (elim evenE)
    with less.prems have mp: "0 < m" by simp
    have ih: "(m AND (m - 1) = 0) = (\<exists>k. m = 2 ^ k)"
      using less.IH [of m] m mp by simp
    have "(\<exists>k. n = 2 ^ k) = (\<exists>k. m = 2 ^ k)"
    proof
      assume "\<exists>k. n = 2 ^ k"
      then obtain k where k: "n = 2 ^ k" ..
      with True less.prems have "k \<noteq> 0" by (cases k) auto
      then obtain j where "k = Suc j" by (cases k) auto
      with k m have "m = 2 ^ j" by simp
      then show "\<exists>k. m = 2 ^ k" ..
    next
      assume "\<exists>k. m = 2 ^ k"
      then obtain k where "m = 2 ^ k" ..
      with m have "n = 2 ^ Suc k" by simp
      then show "\<exists>k. n = 2 ^ k" ..
    qed
    then show ?thesis
      using ih and_pred_even [OF mp] m by simp
  next
    case False
    then obtain m where m: "n = 2 * m + 1" by (elim oddE)
    have "(\<exists>k. n = 2 ^ k) = (m = 0)"
    proof
      assume "\<exists>k. n = 2 ^ k"
      then obtain k where k: "n = 2 ^ k" ..
      with False have "k = 0" by (cases k) auto
      with k m show "m = 0" by simp
    next
      assume "m = 0"
      with m have "n = 2 ^ 0" by simp
      then show "\<exists>k. n = 2 ^ k" ..
    qed
    then show ?thesis
      using and_pred_odd [of m] m by simp
  qed
qed

text \<open>The same on \<^verbatim>\<open>std::size_t\<close>: the test of \<open>verify_args\<close> accepts the powers of two.\<close>

lemma is_power_of_two_iff:
  fixes a :: "'s::len word"
  shows "is_power_of_two a = (a \<noteq> 0 \<and> a AND (a - 1) = 0)"
proof (cases "a = 0")
  case True
  then show ?thesis by (auto simp: is_power_of_two_def)
next
  case False
  then have pos: "0 < unat a" by (simp add: unat_gt_0)
  have "(a AND (a - 1) = 0) = (unat (a AND (a - 1)) = 0)"
    by (simp add: unat_eq_0)
  also have "\<dots> = (unat a AND (unat a - 1) = 0)"
    using False by (simp add: unsigned_and_eq unat_minus_one)
  also have "\<dots> = (\<exists>k. unat a = 2 ^ k)"
    by (rule nat_and_pred_eq_0_iff [OF pos])
  also have "\<dots> = (\<exists>k\<in>{0..<LENGTH('s)}. a = 2 ^ k)"
  proof
    assume "\<exists>k. unat a = 2 ^ k"
    then obtain k where k: "unat a = 2 ^ k" ..
    have "unat a < 2 ^ LENGTH('s)" by (rule unsigned_less)
    with k have kl: "k < LENGTH('s)" by simp
    have "a = of_nat (unat a)" by simp
    also have "\<dots> = 2 ^ k" unfolding k by simp
    finally show "\<exists>k\<in>{0..<LENGTH('s)}. a = 2 ^ k" using kl by auto
  next
    assume "\<exists>k\<in>{0..<LENGTH('s)}. a = 2 ^ k"
    then obtain k where "k < LENGTH('s)" "a = 2 ^ k" by auto
    then have "unat a = 2 ^ k" by (simp add: of_nat_inverse)
    then show "\<exists>k. unat a = 2 ^ k" ..
  qed
  finally show ?thesis using False by (simp add: is_power_of_two_def)
qed

lemma verify_args_iff:
  "fst (verify_args log bytes alignment) = (bytes \<noteq> 0 \<and> is_power_of_two alignment)"
  by (simp add: verify_args_def is_power_of_two_iff)

lemma verify_args_log:
  "snd (verify_args log bytes alignment) =
     (if bytes \<noteq> 0 \<and> \<not> is_power_of_two alignment
      then log @ [log_error ''invalid bytes = {}, alignment = {}''
                    [arg_size bytes, arg_size alignment]]
      else log)"
  by (simp add: verify_args_def is_power_of_two_iff)

section \<open>The result wrapper: claims\<close>

text \<open>
  C1. Integral policy, shape \<^verbatim>\<open>(value, ok)\<close>: with \<^verbatim>\<open>ok == false\<close> and \<^verbatim>\<open>value\<close> the
  type's default value zero, the stored error code is the uninitialized sentinel
  \<^verbatim>\<open>error_number_limit\<close>, so \<^verbatim>\<open>ok()\<close> is false and \<^verbatim>\<open>error()\<close> is the sentinel, not the
  zero value converted to an error code. The sentinel is distinct from the "no error" code.
\<close>

theorem C1_zero_false_stores_uninitialized:
  fixes error_number_limit :: "'e::len error_code_t"
  assumes "error_number_limit \<noteq> 0"
  shows "(integral_default_value :: 'a::len word) = 0
    \<and> ok (result (integral_init_code_value_ok is_signed error_number_limit (0 :: 'a word) False))
        = False
    \<and> error (result (integral_init_code_value_ok is_signed error_number_limit (0 :: 'a word) False))
        = error_code error_number_limit
    \<and> error (result (integral_init_code_value_ok is_signed error_number_limit (0 :: 'a word) False))
        \<noteq> error_code (static_cast_error_code_t is_signed (0 :: 'a word))
    \<and> value (result (integral_init_code_value_ok is_signed error_number_limit (0 :: 'a word) False))
        = 0"
  using assms
  by (simp add: integral_default_value_def integral_init_code_value_ok_def ok_def error_def
      value_def get_ok_def get_error_def get_value_def to_bool_def static_cast_error_code_t_def)

theorem C1_witness:
  "(- 1 :: 64 word) \<noteq> 0
    \<and> ok (result (integral_init_code_value_ok True (- 1 :: 64 word) (0 :: 32 word) False)) = False
    \<and> error (result (integral_init_code_value_ok True (- 1 :: 64 word) (0 :: 32 word) False))
        = error_code (- 1)"
  using C1_zero_false_stores_uninitialized
    [where error_number_limit = "- 1 :: 64 word" and is_signed = True and 'a = 32]
  by simp

text \<open>
  C2. For every stored state of a result, of every payload policy: \<^verbatim>\<open>ok()\<close> holds exactly
  when \<^verbatim>\<open>error()\<close> is the "no error" value, \<^verbatim>\<open>ok()\<close> is the negation of the truth value of
  \<^verbatim>\<open>error()\<close>, and the conversion to \<^verbatim>\<open>bool\<close> agrees with \<^verbatim>\<open>ok()\<close>. The statement ranges
  over all storage values, hence over whatever any constructor stored.
\<close>

theorem C2_ok_iff_error_is_no_error:
  fixes r :: "('a, 'e::len) storage_t result"
    and q :: "'e error_code_t error_code result_void"
  shows "ok r = (error r = no_error)
    \<and> ok r = (\<not> to_bool (error r))
    \<and> operator_bool r = ok r
    \<and> void_ok q = (void_error q = no_error)
    \<and> void_ok q = (\<not> to_bool (void_error q))
    \<and> void_operator_bool q = void_ok q"
proof -
  show ?thesis
    by (simp add: ok_def error_def operator_bool_def get_ok_def get_error_def
        void_ok_def void_error_def void_operator_bool_def void_get_ok_def void_get_error_def
        not_to_bool_iff)
qed




text \<open>
  C4. \<^verbatim>\<open>result<void>\<close>: the constructor without arguments stores the uninitialized sentinel,
  so \<^verbatim>\<open>ok()\<close> is false; the constructor from an error code stores it unchanged, so
  \<^verbatim>\<open>ok()\<close> tells whether the code is "no error", and \<^verbatim>\<open>result<void>(no-error).ok()\<close> holds.
\<close>

theorem C4_void_constructors:
  fixes error_number_limit :: "'e::len error_code_t" and ec :: "'e error_code_t error_code"
  assumes "error_number_limit \<noteq> 0"
  shows "void_error (result_void (void_init_code error_number_limit))
        = error_code error_number_limit
    \<and> void_ok (result_void (void_init_code error_number_limit)) = False
    \<and> void_error (result_void (void_init_code_ec ec)) = ec
    \<and> void_ok (result_void (void_init_code_ec ec)) = (ec = no_error)
    \<and> void_ok (result_void (void_init_code_ec (no_error :: 'e error_code_t error_code))) = True"
proof -
  show ?thesis
    using assms
    by (simp add: void_ok_def void_error_def void_get_ok_def void_get_error_def
        void_init_code_def void_init_code_ec_def not_to_bool_iff) (simp add: no_error_def)
qed

theorem C4_witness:
  "(- 1 :: 64 word) \<noteq> 0
    \<and> void_ok (result_void (void_init_code (- 1 :: 64 word))) = False
    \<and> void_ok (result_void (void_init_code_ec (error_code (0 :: 64 word)))) = True
    \<and> void_ok (result_void (void_init_code_ec (error_code (7 :: 64 word)))) = False"
  using C4_void_constructors [where error_number_limit = "- 1 :: 64 word"
      and ec = "error_code (7 :: 64 word)"]
  by (simp add: no_error_def)

text \<open>
  C5. Pointer policy: the shape \<^verbatim>\<open>(nullptr)\<close> stores the null pointer with the error code
  \<^verbatim>\<open>-1\<close>, so \<^verbatim>\<open>ok()\<close> is false; the shape \<^verbatim>\<open>(nullptr, code)\<close> stores the code unchanged.
\<close>

theorem C5_pointer_null_shapes:
  fixes ec :: "'e::len error_code_t error_code"
  shows "error (result (pointer_init_code_null :: (pointer, 'e) storage_t)) = error_code (- 1)
    \<and> ok (result (pointer_init_code_null :: (pointer, 'e) storage_t)) = False
    \<and> value (result (pointer_init_code_null :: (pointer, 'e) storage_t)) = nullptr
    \<and> error (result (pointer_init_code_null_ec ec)) = ec
    \<and> value (result (pointer_init_code_null_ec ec)) = nullptr"
  by (simp add: pointer_init_code_null_def pointer_init_code_null_ec_def ok_def error_def
      value_def get_ok_def get_error_def get_value_def to_bool_def)

text \<open>
  C6. Generic policy: the shape \<^verbatim>\<open>(value)\<close> stores \<^verbatim>\<open>(value, no-error)\<close>, a success whose
  value is the one given; the shape \<^verbatim>\<open>(code)\<close> stores \<^verbatim>\<open>(zero, code)\<close>, so \<^verbatim>\<open>value()\<close> is
  the default value of the payload type (zero for an integral type, null for a pointer) and
  \<^verbatim>\<open>error()\<close> is the code.
\<close>

theorem C6_generic_one_argument_shapes:
  fixes v :: 'a and ec :: "'e::len error_code_t error_code"
  shows "code_member (result (init_code_value v :: ('a, 'e) storage_t)) = (v, no_error)
    \<and> ok (result (init_code_value v :: ('a, 'e) storage_t)) = True
    \<and> value (result (init_code_value v :: ('a, 'e) storage_t)) = v
    \<and> error (result (init_code_value v :: ('a, 'e) storage_t)) = no_error
    \<and> code_member (result (init_code_ec ec :: ('z::zero, 'e) storage_t)) = (0, ec)
    \<and> value (result (init_code_ec ec :: ('z, 'e) storage_t)) = 0
    \<and> error (result (init_code_ec ec :: ('z, 'e) storage_t)) = ec
    \<and> value (result (init_code_ec ec :: ('w::len word, 'e) storage_t)) = integral_default_value
    \<and> value (result (init_code_ec ec :: (pointer, 'e) storage_t)) = pointer_default_value"
  by (simp add: init_code_value_def init_code_ec_def ok_def error_def value_def get_ok_def
      get_error_def get_value_def to_bool_def no_error_def integral_default_value_def
      pointer_default_value_def nullptr_def)

text \<open>
  C7. Two results are equal exactly when their storage is: the values are equal and the
  error codes are equal (for \<^verbatim>\<open>result<void>\<close>, the error codes). \<^verbatim>\<open>operator!=\<close> is the
  negation of \<^verbatim>\<open>operator==\<close>. \<^verbatim>\<open>Result(5, true)\<close> equals itself and differs from
  \<^verbatim>\<open>Result(5, false)\<close>; two successes with different values differ. The instances are
  taken at \<^verbatim>\<open>T = int32_t\<close> with a 64-bit \<^verbatim>\<open>error_code_t\<close>.
\<close>

theorem C7_equality_is_storage_equality:
  fixes lhs rhs :: "('a, 'e::len) storage_t result"
    and l r :: "'e error_code_t error_code result_void"
    and lim :: "64 error_code_t"
  shows "operator_eq lhs rhs = (value lhs = value rhs \<and> error lhs = error rhs)
    \<and> operator_ne lhs rhs = (\<not> operator_eq lhs rhs)
    \<and> void_operator_eq l r = (void_error l = void_error r)
    \<and> void_operator_ne l r = (\<not> void_operator_eq l r)
    \<and> operator_eq (result (integral_init_code_value_ok True lim (5 :: 32 word) True))
         (result (integral_init_code_value_ok True lim (5 :: 32 word) True))
    \<and> operator_ne (result (integral_init_code_value_ok True lim (5 :: 32 word) True))
         (result (integral_init_code_value_ok True lim (5 :: 32 word) False))
    \<and> ok (result (init_code_value (5 :: 32 word) :: (32 word, 64) storage_t))
    \<and> ok (result (init_code_value (6 :: 32 word) :: (32 word, 64) storage_t))
    \<and> operator_ne (result (init_code_value (5 :: 32 word) :: (32 word, 64) storage_t))
         (result (init_code_value (6 :: 32 word)))"
proof -
  have a: "operator_eq lhs rhs = (value lhs = value rhs \<and> error lhs = error rhs)"
    by (cases lhs; cases rhs)
      (auto simp: operator_eq_def value_def error_def get_value_def get_error_def)
  have b: "void_operator_eq l r = (void_error l = void_error r)"
    by (simp add: void_operator_eq_def void_error_def void_get_error_def)
  show ?thesis
    by (simp add: a b operator_ne_def void_operator_ne_def)
      (simp add: operator_eq_def integral_init_code_value_ok_def integral_default_value_def
        static_cast_error_code_t_def init_code_value_def ok_def get_ok_def to_bool_def
        no_error_def value_def error_def get_value_def get_error_def)
qed

text \<open>
  C10. Pointer policy: the shape \<^verbatim>\<open>(nullptr, ec)\<close> with \<^verbatim>\<open>ec\<close> the "no error" value is a
  success although the stored pointer is null; the error code \<^verbatim>\<open>-1\<close> belongs to the shape
  \<^verbatim>\<open>(nullptr)\<close> alone.
\<close>

theorem C10_null_with_no_error_is_ok:
  "ok (result (pointer_init_code_null_ec (no_error :: 'e::len error_code_t error_code))) = True
    \<and> value (result (pointer_init_code_null_ec (no_error :: 'e error_code_t error_code)))
        = nullptr
    \<and> error (result (pointer_init_code_null_ec (no_error :: 'e error_code_t error_code)))
        = no_error
    \<and> ok (result (pointer_init_code_null :: (pointer, 'e) storage_t)) = False"
  by (simp add: pointer_init_code_null_def pointer_init_code_null_ec_def ok_def error_def
      value_def get_ok_def get_error_def get_value_def to_bool_def no_error_def)

section \<open>The allocator: claims\<close>

lemma not_is_power_of_two_3: "\<not> is_power_of_two (3 :: 64 word)"
  by (simp add: is_power_of_two_iff)

lemma allocate_valid_posix64:
  "allocate posix64 [] 64 16 = (4096, [])
    \<and> deallocate posix64 [] 4096 64 16 = ([], [call_std_free 4096])"
  by (simp add: allocate_def deallocate_def verify_args_def std_free_def posix64_def nullptr_def)

text \<open>
  C8. Invalid arguments are rejected by a normal return: \<^verbatim>\<open>allocate\<close> returns null when
  \<^verbatim>\<open>bytes == 0\<close> or \<^verbatim>\<open>alignment\<close> is not a power of two (zero is not one);
  \<^verbatim>\<open>deallocate\<close> calls no release routine when the pointer is null or the sizes are invalid
  in that way. In both cases the outcome is the same on every platform: no library routine,
  the only source of a fault, is consulted.
\<close>

theorem C8_invalid_arguments_rejected:
  fixes bytes alignment :: "'s::len word"
  shows "(bytes = 0 \<or> \<not> is_power_of_two alignment \<longrightarrow>
            fst (allocate pf log bytes alignment) = nullptr
          \<and> allocate pf log bytes alignment = allocate pf' log bytes alignment)
    \<and> (p = nullptr \<or> bytes = 0 \<or> \<not> is_power_of_two alignment \<longrightarrow>
            snd (deallocate pf log p bytes alignment) = []
          \<and> deallocate pf log p bytes alignment = deallocate pf' log p bytes alignment)
    \<and> \<not> is_power_of_two (0 :: 's word)"
proof -
  have a: "fst (allocate q log bytes alignment) = nullptr
      \<and> allocate q log bytes alignment = (nullptr, snd (verify_args log bytes alignment))"
    if "bytes = 0 \<or> \<not> is_power_of_two alignment" for q :: "'s word platform"
    using that verify_args_iff [of log bytes alignment]
    by (cases "verify_args log bytes alignment") (auto simp: allocate_def)
  have d: "snd (deallocate q log p bytes alignment) = []
      \<and> deallocate q log p bytes alignment =
          (if p = nullptr then log else snd (verify_args log bytes alignment), [])"
    if "p = nullptr \<or> bytes = 0 \<or> \<not> is_power_of_two alignment" for q :: "'s word platform"
    using that verify_args_iff [of log bytes alignment]
    by (cases "verify_args log bytes alignment") (auto simp: deallocate_def)
  have z: "\<not> is_power_of_two (0 :: 's word)"
    by (simp add: is_power_of_two_iff)
  from a [of pf] a [of pf'] d [of pf] d [of pf'] z show ?thesis by simp
qed

theorem C8_witness:
  "\<not> is_power_of_two (3 :: 64 word)
    \<and> fst (allocate posix64 [] 16 3) = nullptr
    \<and> fst (allocate posix64 [] 0 8) = nullptr
    \<and> fst (allocate posix64 [] 16 0) = nullptr
    \<and> snd (deallocate posix64 [] 4096 16 3) = []
    \<and> snd (deallocate posix64 [] 4096 0 8) = []
    \<and> snd (deallocate posix64 [] nullptr 16 8) = []"
  using not_is_power_of_two_3
    C8_invalid_arguments_rejected [of "16 :: 64 word" 3 posix64 "[]" posix64 4096]
    C8_invalid_arguments_rejected [of "0 :: 64 word" 8 posix64 "[]" posix64 4096]
    C8_invalid_arguments_rejected [of "16 :: 64 word" 0 posix64 "[]" posix64 4096]
    C8_invalid_arguments_rejected [of "16 :: 64 word" 8 posix64 "[]" posix64 nullptr]
  by simp

text \<open>
  C9. \<^verbatim>\<open>allocate(0, alignment)\<close> returns null and writes nothing to the log, for every
  alignment. A rejected alignment (with \<^verbatim>\<open>bytes\<close> not zero) writes one record; any other
  record written by \<^verbatim>\<open>allocate\<close> reports the failure of a library routine called for an
  alignment above \<^verbatim>\<open>alignof(std::max_align_t)\<close>.
\<close>

theorem C9_zero_bytes_not_logged:
  fixes bytes alignment :: "'s::len word"
  shows "allocate pf log 0 alignment = (nullptr, log)
    \<and> (bytes \<noteq> 0 \<and> \<not> is_power_of_two alignment \<longrightarrow>
          allocate pf log bytes alignment =
            (nullptr, log @ [log_error ''invalid bytes = {}, alignment = {}''
                               [arg_size bytes, arg_size alignment]]))
    \<and> (snd (allocate pf log bytes alignment) \<noteq> log \<longrightarrow>
          bytes \<noteq> 0 \<and>
          (\<not> is_power_of_two alignment \<or>
           alignof_max_align_t pf < alignment \<and>
             (build pf = LIBIMP_CPP_17 \<and>
                aligned_alloc pf alignment bytes \<notin> range returns \<or>
              build pf = POSIX \<and> fst (posix_memalign pf alignment bytes) \<noteq> 0)))"
proof -
  have z: "allocate pf log 0 alignment = (nullptr, log)"
    by (simp add: allocate_def verify_args_def)
  have i: "bytes \<noteq> 0 \<and> \<not> is_power_of_two alignment \<Longrightarrow>
      allocate pf log bytes alignment =
        (nullptr, log @ [log_error ''invalid bytes = {}, alignment = {}''
                           [arg_size bytes, arg_size alignment]])"
    using verify_args_iff [of log bytes alignment] verify_args_log [of log bytes alignment]
    by (cases "verify_args log bytes alignment") (auto simp: allocate_def)
  have o: "snd (allocate pf log bytes alignment) \<noteq> log \<Longrightarrow>
      bytes \<noteq> 0 \<and>
      (\<not> is_power_of_two alignment \<or>
       alignof_max_align_t pf < alignment \<and>
         (build pf = LIBIMP_CPP_17 \<and> aligned_alloc pf alignment bytes \<notin> range returns \<or>
          build pf = POSIX \<and> fst (posix_memalign pf alignment bytes) \<noteq> 0))"
    using verify_args_iff [of log bytes alignment] verify_args_log [of log bytes alignment]
    by (cases "verify_args log bytes alignment")
      (auto simp: allocate_def split: if_splits build.splits outcome.splits prod.splits)
  from z i o show ?thesis by blast
qed

theorem C9_witness:
  "allocate posix64 [] 0 8 = (nullptr, [])
    \<and> allocate posix64 [] 0 3 = (nullptr, [])
    \<and> (16 :: 64 word) \<noteq> 0 \<and> \<not> is_power_of_two (3 :: 64 word)
    \<and> allocate posix64 [] 16 3 =
        (nullptr, [log_error ''invalid bytes = {}, alignment = {}'' [arg_size 16, arg_size 3]])"
  using not_is_power_of_two_3
    C9_zero_bytes_not_logged [of posix64 "[]" "8 :: 64 word" 16]
    C9_zero_bytes_not_logged [of posix64 "[]" "3 :: 64 word" 16]
  by simp

end
